theory Spec2Isabelle
  imports Main "HOL-Library.Word"
begin

text \<open>
  A model of the file abstraction of fs-js, after its most complete source
  (\<open>src/unnamed/part_000\<close>): the class \<open>File\<close> with \<open>NodeFile\<close> and \<open>DenoFile\<close>, their
  \<open>slice\<close> and \<open>stream\<close>, the directory trees, \<open>openFile\<close> and \<open>openDirectory\<close>. The
  streams are state machines: the callbacks and listeners of the source are functions
  on a state, and the host (the native stream, the ReadableStream, the consumer) moves
  the state by events. What belongs to the host and not to the library (the file
  system, \<open>createReadStream\<close>, \<open>seek\<close>, \<open>path.join\<close>, the stream controller) is modelled
  after its documentation and said so where it is defined.
\<close>

section \<open>JavaScript values used by the File abstraction\<close>

text \<open>
  The offsets a File carries are JavaScript values: a number, \<open>undefined\<close> (an argument
  that was left out, as in \<open>new NodeFile(f)\<close>), or \<open>NaN\<close> (what \<open>undefined - undefined\<close>
  evaluates to). Numbers are modelled as mathematical integers; \<open>-0\<close>, infinities and
  fractions are left out. JavaScript numbers are doubles: the model is exact as long as
  the integers involved, and their differences, stay within \<open>2^53\<close> in magnitude, and
  it does not follow the rounding beyond.
\<close>

datatype jsval = Undefined | Num int | NaN

text \<open>
  \<open>end - start\<close>: the operands go through ToNumber, and \<open>undefined\<close> becomes \<open>NaN\<close>. On
  numbers it is the exact difference, which is what JavaScript computes when operands
  and result are within \<open>2^53\<close> in magnitude.
\<close>

fun js_sub :: "jsval \<Rightarrow> jsval \<Rightarrow> jsval" where
  "js_sub (Num a) (Num b) = Num (a - b)"
| "js_sub _ _ = NaN"

text \<open>The test of \<open>x ? a : b\<close>: \<open>undefined\<close>, \<open>NaN\<close> and \<open>0\<close> are falsy.\<close>

fun truthy :: "jsval \<Rightarrow> bool" where
  "truthy Undefined = False"
| "truthy NaN = False"
| "truthy (Num n) = (n \<noteq> 0)"

text \<open>\<open>Number.isInteger\<close>: what "a defined, valid integer" asks of a value.\<close>

fun isInteger :: "jsval \<Rightarrow> bool" where
  "isInteger (Num n) = True"
| "isInteger _ = False"

section \<open>Native handles\<close>

type_synonym byte = "8 word"

text \<open>
  An open native handle (a Node \<open>FileHandle\<close>, a Deno \<open>FsFile\<close>): the path it was opened
  at and the bytes of that file. The library only reads, so the bytes never change.
\<close>

record handle =
  h_path :: string
  h_bytes :: "byte list"

text \<open>\<open>(await f.stat()).size\<close>\<close>

definition stat_size :: "handle \<Rightarrow> jsval" where
  "stat_size f = Num (int (length (h_bytes f)))"

section \<open>File and slice\<close>

datatype file_class = NodeFileClass | DenoFileClass

text \<open>
  The fields \<open>_file\<close>, \<open>_start\<close>, \<open>_end\<close>, \<open>_size\<close> of \<open>class File\<close>, and the subclass the
  object was built with.
\<close>

record File =
  f_class :: file_class
  f_file :: handle
  f_start :: jsval
  f_end :: jsval
  f_size :: jsval

text \<open>\<open>constructor(f, start, end)\<close> of \<open>File\<close>; the subclasses only call \<open>super\<close>.\<close>

definition File_constructor :: "file_class \<Rightarrow> handle \<Rightarrow> jsval \<Rightarrow> jsval \<Rightarrow> File" where
  "File_constructor c f start end' =
     \<lparr>f_class = c, f_file = f, f_start = start, f_end = end', f_size = js_sub end' start\<rparr>"

definition new_NodeFile :: "handle \<Rightarrow> jsval \<Rightarrow> jsval \<Rightarrow> File" where
  "new_NodeFile f start end' = File_constructor NodeFileClass f start end'"

definition new_DenoFile :: "handle \<Rightarrow> jsval \<Rightarrow> jsval \<Rightarrow> File" where
  "new_DenoFile f start end' = File_constructor DenoFileClass f start end'"

text \<open>\<open>get size()\<close>\<close>

definition size_of :: "File \<Rightarrow> jsval" where
  "size_of this = f_size this"

text \<open>
  \<open>slice(start, end, contentType)\<close>: an argument left out is \<open>Undefined\<close>; \<open>contentType\<close>
  is never read.
\<close>

definition NodeFile_slice :: "File \<Rightarrow> jsval \<Rightarrow> jsval \<Rightarrow> File" where
  "NodeFile_slice this start end' =
     new_NodeFile (f_file this)
       (if truthy start then start else f_start this)
       (if truthy end' then end' else f_end this)"

definition DenoFile_slice :: "File \<Rightarrow> jsval \<Rightarrow> jsval \<Rightarrow> File" where
  "DenoFile_slice this start end' =
     new_DenoFile (f_file this)
       (if truthy start then start else f_start this)
       (if truthy end' then end' else f_end this)"

text \<open>A call \<open>file.slice(start, end)\<close> runs the method of the object's class.\<close>

definition File_slice :: "File \<Rightarrow> jsval \<Rightarrow> jsval \<Rightarrow> File" where
  "File_slice this start end' =
     (case f_class this of
        NodeFileClass \<Rightarrow> NodeFile_slice this start end'
      | DenoFileClass \<Rightarrow> DenoFile_slice this start end')"

section \<open>Errors\<close>

text \<open>
  Whatever the code throws or a promise rejects with: Node's \<open>ENOENT\<close> and
  \<open>ERR_OUT_OF_RANGE\<close>, Deno's \<open>NotFound\<close> and its error for an offset that cannot be
  sought, a \<open>TypeError\<close> of the stream controller, and \<open>new Error(message)\<close>.
\<close>

datatype error = ENOENT | ERR_OUT_OF_RANGE | NotFound | InvalidSeek | TypeError | Error string

section \<open>NodeFile.stream: the bridge from a Node read stream to a ReadableStream\<close>

text \<open>
  Cutting a byte sequence into the chunks of at most \<open>n\<close> bytes a native stream emits
  (\<open>n = 0\<close>: all of it in one chunk).
\<close>

fun chunks :: "nat \<Rightarrow> 'a list \<Rightarrow> 'a list list" where
  "chunks n [] = []"
| "chunks n (x # xs) =
     (if n = 0 then [x # xs] else take n (x # xs) # chunks n (drop n (x # xs)))"

text \<open>
  The host's \<open>FileHandle.createReadStream({start, end})\<close>, as Node documents it: \<open>start\<close>
  and \<open>end\<close> are both inclusive and count from 0; a \<open>start\<close> left out reads from the
  handle's position (0 for a fresh handle), an \<open>end\<close> left out reads to the end of the
  file; a bound that is not an integer from 0 to \<open>2^53 - 1\<close>
  (\<open>Number.MAX_SAFE_INTEGER\<close>), or a \<open>start\<close> above \<open>end\<close>, throws \<open>ERR_OUT_OF_RANGE\<close>.
  The result is the chunks the stream will emit, \<open>n\<close> bytes at a time (Node's default
  is 65536).
\<close>

definition valid_bound :: "jsval \<Rightarrow> bool" where
  "valid_bound v =
     (case v of
        Undefined \<Rightarrow> True
      | Num k \<Rightarrow> 0 \<le> k \<and> k \<le> 9007199254740991
      | NaN \<Rightarrow> False)"

definition createReadStream :: "handle \<Rightarrow> jsval \<Rightarrow> jsval \<Rightarrow> nat \<Rightarrow> error + byte list list" where
  "createReadStream f start end' n =
     (if \<not> valid_bound start \<or> \<not> valid_bound end' then Inl ERR_OUT_OF_RANGE
      else
        (let first = (case start of Num a \<Rightarrow> nat a | _ \<Rightarrow> 0) in
         case end' of
           Num b \<Rightarrow>
             (if first > nat b \<and> start \<noteq> Undefined then Inl ERR_OUT_OF_RANGE
              else Inr (chunks n (take (nat b + 1 - first) (drop first (h_bytes f)))))
         | _ \<Rightarrow> Inr (chunks n (drop first (h_bytes f)))))"

text \<open>
  The state \<open>stream()\<close> sets up: the native stream (\<open>nodeStream\<close>), the controller of the
  ReadableStream with its queue, and the closure variable \<open>done\<close>. Four more fields
  record what happens and are never read by the code: the chunks the consumer has
  read, the chunks the \<open>data\<close> handler let go of without enqueuing them, the number of
  calls of \<open>controller.close()\<close>, and the exceptions a handler threw.
\<close>

record bridge =
  ns_pending :: "byte list list"
  ns_flowing :: bool
  ns_closed :: bool
  rs_queue :: "byte list list"
  rs_closeRequested :: bool
  rs_closed :: bool
  done_flag :: bool
  delivered :: "byte list list"
  discarded :: "byte list list"
  close_calls :: nat
  thrown :: "error list"

text \<open>
  The controller of a ReadableStream built without a queuing strategy (WHATWG Streams):
  the high-water mark is 1 and every chunk counts 1, so \<open>desiredSize\<close> is 1 minus the
  queue length, and 0 once the stream is closed. \<open>enqueue\<close> and \<open>close\<close> throw a
  \<open>TypeError\<close> when the stream is closed or a close was requested; \<open>close\<close> on a
  non-empty queue closes the stream only once the queue is drained.
\<close>

definition desiredSize :: "bridge \<Rightarrow> int" where
  "desiredSize b = (if rs_closed b then 0 else 1 - int (length (rs_queue b)))"

definition controller_enqueue :: "byte list \<Rightarrow> bridge \<Rightarrow> bridge" where
  "controller_enqueue chunk b =
     (if rs_closed b \<or> rs_closeRequested b then b\<lparr>thrown := thrown b @ [TypeError]\<rparr>
      else b\<lparr>rs_queue := rs_queue b @ [chunk]\<rparr>)"

definition controller_close :: "bridge \<Rightarrow> bridge" where
  "controller_close b =
     (if rs_closed b \<or> rs_closeRequested b
      then b\<lparr>close_calls := close_calls b + 1, thrown := thrown b @ [TypeError]\<rparr>
      else b\<lparr>close_calls := close_calls b + 1, rs_closeRequested := True,
             rs_closed := (rs_queue b = [])\<rparr>)"

text \<open>\<open>nodeStream.resume()\<close>, \<open>nodeStream.pause()\<close>, \<open>nodeStream.close()\<close>\<close>

definition nodeStream_resume :: "bridge \<Rightarrow> bridge" where
  "nodeStream_resume b = b\<lparr>ns_flowing := True\<rparr>"

definition nodeStream_pause :: "bridge \<Rightarrow> bridge" where
  "nodeStream_pause b = b\<lparr>ns_flowing := False\<rparr>"

definition nodeStream_close :: "bridge \<Rightarrow> bridge" where
  "nodeStream_close b = b\<lparr>ns_closed := True\<rparr>"

text \<open>The callbacks of \<open>NodeFile.stream\<close>, in the order of the source.\<close>

definition pull :: "bridge \<Rightarrow> bridge" where
  "pull b = (if desiredSize b > 0 then nodeStream_resume b else b)"

definition cancel :: "bridge \<Rightarrow> bridge" where
  "cancel b = (nodeStream_close b)\<lparr>done_flag := True\<rparr>"

text \<open>
  The \<open>data\<close> handler. Its \<open>else\<close> branch pauses the native stream and does nothing
  with \<open>chunk\<close>; the field \<open>discarded\<close> keeps a note of it.
\<close>

definition on_data :: "byte list \<Rightarrow> bridge \<Rightarrow> bridge" where
  "on_data chunk b =
     (if desiredSize b > 0 then controller_enqueue chunk b
      else (nodeStream_pause b)\<lparr>discarded := discarded b @ [chunk]\<rparr>)"

definition on_close :: "bridge \<Rightarrow> bridge" where
  "on_close b =
     (if \<not> done_flag b then (controller_close b)\<lparr>done_flag := True\<rparr> else b)"

text \<open>
  \<open>stream()\<close>: \<open>createReadStream\<close> with the File's \<open>_start\<close> and \<open>_end\<close>, then the
  ReadableStream and the two listeners. Adding the \<open>data\<close> listener puts the native
  stream into flowing mode. The handle carries no state here, so this is the first
  stream taken from a handle: in Node the native stream closes the handle when it ends,
  and a later \<open>stream()\<close> on the same handle, from this File or a slice of it, fails.
\<close>

definition NodeFile_stream :: "File \<Rightarrow> nat \<Rightarrow> error + bridge" where
  "NodeFile_stream this n =
     (case createReadStream (f_file this) (f_start this) (f_end this) n of
        Inl e \<Rightarrow> Inl e
      | Inr cs \<Rightarrow>
          Inr \<lparr>ns_pending = cs, ns_flowing = True, ns_closed = False,
               rs_queue = [], rs_closeRequested = False, rs_closed = False,
               done_flag = False, delivered = [], discarded = [], close_calls = 0,
               thrown = []\<rparr>)"

text \<open>
  What can happen to a bridge, one event at a time:
  \<^item> \<open>EmitData\<close>: the native stream, flowing and not closed, emits its next chunk;
  \<^item> \<open>EmitClose\<close>: the native stream emits \<open>close\<close> (the model lets it do so at any
    time and any number of times);
  \<^item> \<open>Pull\<close>: the ReadableStream calls \<open>pull\<close>;
  \<^item> \<open>Cancel\<close>: the consumer cancels: the ReadableStream closes, empties its queue and
    calls \<open>cancel\<close>;
  \<^item> \<open>Read\<close>: the consumer takes the chunk at the head of the queue; a requested
    close takes effect when the queue runs empty.
\<close>

datatype event = EmitData | EmitClose | Pull | Cancel | Read

definition step :: "event \<Rightarrow> bridge \<Rightarrow> bridge" where
  "step e b =
     (case e of
        EmitData \<Rightarrow>
          (case ns_pending b of
             [] \<Rightarrow> b
           | c # cs \<Rightarrow>
               if ns_flowing b \<and> \<not> ns_closed b then on_data c (b\<lparr>ns_pending := cs\<rparr>) else b)
      | EmitClose \<Rightarrow> on_close b
      | Pull \<Rightarrow> pull b
      | Cancel \<Rightarrow> cancel (b\<lparr>rs_closed := True, rs_queue := []\<rparr>)
      | Read \<Rightarrow>
          (case rs_queue b of
             [] \<Rightarrow> b
           | c # cs \<Rightarrow>
               b\<lparr>rs_queue := cs, delivered := delivered b @ [c],
                 rs_closed := (rs_closed b \<or> (rs_closeRequested b \<and> cs = []))\<rparr>))"

fun run :: "event list \<Rightarrow> bridge \<Rightarrow> bridge" where
  "run [] b = b"
| "run (e # es) b = run es (step e b)"

section \<open>DenoFile.stream: seek, then read\<close>

text \<open>
  The state behind the stream \<open>DenoFile.stream\<close> returns: the bytes and the cursor of
  the handle, the queue of the ReadableStream, whether it is closed, and the error it
  ended with if \<open>start\<close> rejected. \<open>sr_chunk\<close> is how many bytes one read of the handle's
  \<open>readable\<close> returns at most. Two fields record what happens and are never read by the
  code: the argument of every \<open>seek\<close> call, and the chunks the consumer has read.
\<close>

record seek_reader =
  sr_bytes :: "byte list"
  sr_chunk :: nat
  sr_pos :: nat
  sr_queue :: "byte list list"
  sr_closed :: bool
  sr_errored :: "error option"
  sr_seeks :: "jsval list"
  sr_delivered :: "byte list list"

text \<open>
  The host's \<open>seek(offset, Deno.SeekMode.Start)\<close>: the call is recorded; a non-negative
  integer moves the cursor, anything else makes the call fail.
\<close>

definition seek :: "jsval \<Rightarrow> seek_reader \<Rightarrow> seek_reader" where
  "seek offset s =
     (case offset of
        Num k \<Rightarrow>
          if 0 \<le> k then s\<lparr>sr_seeks := sr_seeks s @ [offset], sr_pos := nat k\<rparr>
          else s\<lparr>sr_seeks := sr_seeks s @ [offset], sr_errored := Some InvalidSeek\<rparr>
      | _ \<Rightarrow> s\<lparr>sr_seeks := sr_seeks s @ [offset], sr_errored := Some InvalidSeek\<rparr>)"

text \<open>
  The constructor of a ReadableStream calls the \<open>start\<close> callback of its underlying
  source before it returns (WHATWG Streams, setting up the default controller); \<open>pull\<close>
  is called later, and only while the stream is neither closed nor errored.
\<close>

definition new_ReadableStream :: "('s \<Rightarrow> 's) \<Rightarrow> 's \<Rightarrow> 's" where
  "new_ReadableStream start s = start s"

text \<open>
  The \<open>start\<close> callback of \<open>DenoFile.stream\<close>: it seeks to \<open>_start\<close> and takes the reader
  of the handle's \<open>readable\<close>.
\<close>

definition DenoFile_stream_start :: "File \<Rightarrow> seek_reader \<Rightarrow> seek_reader" where
  "DenoFile_stream_start self s = seek (f_start self) s"

text \<open>
  The \<open>pull\<close> callback: one \<open>read()\<close> of the reader. At the end of the file the read
  reports \<open>done\<close> and the controller is closed; otherwise the chunk read, of at most
  \<open>sr_chunk\<close> bytes from the cursor on, is enqueued.
\<close>

definition DenoFile_stream_pull :: "seek_reader \<Rightarrow> seek_reader" where
  "DenoFile_stream_pull s =
     (if length (sr_bytes s) \<le> sr_pos s then s\<lparr>sr_closed := True\<rparr>
      else (let value = take (sr_chunk s) (drop (sr_pos s) (sr_bytes s))
            in s\<lparr>sr_queue := sr_queue s @ [value], sr_pos := sr_pos s + length value\<rparr>))"

text \<open>
  \<open>stream()\<close>. With \<open>_start\<close> defined it builds a ReadableStream from the two callbacks.
  With \<open>_start\<close> undefined it hands out the handle's own \<open>readable\<close>, which reads from
  the cursor where it stands, in the same way. \<open>_end\<close> is not read on either path.
\<close>

definition DenoFile_stream :: "File \<Rightarrow> nat \<Rightarrow> seek_reader" where
  "DenoFile_stream this n =
     (let fresh = \<lparr>sr_bytes = h_bytes (f_file this), sr_chunk = n, sr_pos = 0,
                    sr_queue = [], sr_closed = False, sr_errored = None, sr_seeks = [],
                    sr_delivered = []\<rparr>
      in if f_start this \<noteq> Undefined
         then new_ReadableStream (DenoFile_stream_start this) fresh
         else fresh)"

text \<open>The consumer takes the chunk at the head of the queue.\<close>

definition sr_read :: "seek_reader \<Rightarrow> seek_reader" where
  "sr_read s =
     (case sr_queue s of
        [] \<Rightarrow> s
      | c # cs \<Rightarrow> s\<lparr>sr_queue := cs, sr_delivered := sr_delivered s @ [c]\<rparr>)"

text \<open>
  What can happen to the stream once it is built: the ReadableStream calls \<open>pull\<close>
  (\<open>SrPull\<close>), or the consumer reads (\<open>SrRead\<close>).
\<close>

datatype sr_event = SrPull | SrRead

definition sr_step :: "sr_event \<Rightarrow> seek_reader \<Rightarrow> seek_reader" where
  "sr_step e s =
     (case e of
        SrPull \<Rightarrow> if sr_closed s \<or> sr_errored s \<noteq> None then s else DenoFile_stream_pull s
      | SrRead \<Rightarrow> sr_read s)"

fun sr_run :: "sr_event list \<Rightarrow> seek_reader \<Rightarrow> seek_reader" where
  "sr_run [] s = s"
| "sr_run (e # es) s = sr_run es (sr_step e s)"

section \<open>The host: file system, picker, path join\<close>

text \<open>A file handed over by the browser's picker (a DOM \<open>File\<close>): its name and bytes.\<close>

record dom_file =
  df_name :: string
  df_bytes :: "byte list"

text \<open>
  What the library sees of its host: the regular files that exist, by absolute path
  (directories and other kinds of entries are not modelled: a path is a regular file
  or nothing), and what the user does with the file picker (\<open>None\<close>: the \<open>change\<close> event never comes;
  \<open>Some fs\<close>: the user confirms the selection \<open>fs\<close>).
\<close>

record host =
  files :: "string \<rightharpoonup> byte list"
  picked :: "dom_file list option"

text \<open>
  \<open>nodeFs.promises.open(path)\<close> and \<open>Deno.open(path)\<close> with their default, read-only
  flags: a handle on an existing file, else the host's not-found error. Neither creates
  a file.
\<close>

definition nodeFs_open :: "host \<Rightarrow> string \<Rightarrow> error + handle" where
  "nodeFs_open h path =
     (case files h path of
        None \<Rightarrow> Inl ENOENT
      | Some bs \<Rightarrow> Inr \<lparr>h_path = path, h_bytes = bs\<rparr>)"

definition Deno_open :: "host \<Rightarrow> string \<Rightarrow> error + handle" where
  "Deno_open h path =
     (case files h path of
        None \<Rightarrow> Inl NotFound
      | Some bs \<Rightarrow> Inr \<lparr>h_path = path, h_bytes = bs\<rparr>)"

text \<open>
  The host's \<open>path.join\<close> (POSIX), after Node's \<open>path.posix\<close>: the non-empty arguments
  are joined with \<open>/\<close> and the result is normalised, which resolves \<open>.\<close> and \<open>..\<close>
  segments. \<open>split_slash\<close> cuts a path at every \<open>/\<close>; \<open>normalizeString\<close> walks the
  segments with the resolved ones on a stack (last first).
\<close>

fun split_slash :: "string \<Rightarrow> string list" where
  "split_slash [] = [[]]"
| "split_slash (c # cs) =
     (if c = CHR ''/'' then [] # split_slash cs
      else (case split_slash cs of
              [] \<Rightarrow> [[c]]
            | s # ss \<Rightarrow> (c # s) # ss))"

fun normalizeString :: "bool \<Rightarrow> string list \<Rightarrow> string list \<Rightarrow> string list" where
  "normalizeString allowAboveRoot [] acc = rev acc"
| "normalizeString allowAboveRoot (s # ss) acc =
     (if s = [] \<or> s = ''.'' then normalizeString allowAboveRoot ss acc
      else if s = ''..'' then
        (case acc of
           [] \<Rightarrow> normalizeString allowAboveRoot ss (if allowAboveRoot then [''..''] else [])
         | t # ts \<Rightarrow>
             if t = ''..'' then normalizeString allowAboveRoot ss (''..'' # acc)
             else normalizeString allowAboveRoot ss ts)
      else normalizeString allowAboveRoot ss (s # acc))"

fun join_slash :: "string list \<Rightarrow> string" where
  "join_slash [] = []"
| "join_slash [s] = s"
| "join_slash (s # t # ss) = s @ ''/'' @ join_slash (t # ss)"

definition posix_normalize :: "string \<Rightarrow> string" where
  "posix_normalize path =
     (if path = [] then ''.''
      else
        (let isAbsolute = (hd path = CHR ''/'');
             trailingSeparator = (last path = CHR ''/'');
             p = join_slash (normalizeString (\<not> isAbsolute) (split_slash path) [])
         in if p = [] then (if isAbsolute then ''/'' else if trailingSeparator then ''./'' else ''.'')
            else (let q = (if trailingSeparator then p @ ''/'' else p)
                  in if isAbsolute then ''/'' @ q else q)))"

definition path_join :: "string \<Rightarrow> string \<Rightarrow> string" where
  "path_join a b =
     (if a = [] \<and> b = [] then ''.''
      else if a = [] then posix_normalize b
      else if b = [] then posix_normalize a
      else posix_normalize (a @ ''/'' @ b))"

section \<open>openFile, openDirectory and the directory trees\<close>

datatype runtime = RUNTIME_BROWSER | RUNTIME_NODE | RUNTIME_DENO | RUNTIME_BUN

text \<open>
  A value of the host that the library passes on as it is: the lazy file object of
  \<open>Bun.file(path)\<close>, a DOM \<open>File\<close> of the picker, \<open>undefined\<close>, or a member that a
  property lookup finds on \<open>Object.prototype\<close>.
\<close>

datatype native =
  BunNative string
  | DomFile dom_file
  | NativeUndefined
  | PrototypeMember string

text \<open>What an open operation hands back: an object of the library's \<open>File\<close>, or a host value.\<close>

datatype opened = LibFile File | HostValue native

text \<open>The outcome of an \<open>async\<close> function: resolved, rejected, or never settled.\<close>

datatype 'a promise = Resolved 'a | Rejected error | Pending

text \<open>
  \<open>openFile(path)\<close>, by runtime. The browser resolves with \<open>fileInput.files[0]\<close> when
  the \<open>change\<close> event comes; Node wraps the handle with \<open>new NodeFile(f)\<close>, start and end
  left out; Deno stats the handle first; Bun returns the object of \<open>Bun.file\<close>.
\<close>

definition openFile :: "runtime \<Rightarrow> host \<Rightarrow> string \<Rightarrow> opened promise" where
  "openFile rt h path =
     (case rt of
        RUNTIME_BROWSER \<Rightarrow>
          (case picked h of
             None \<Rightarrow> Pending
           | Some [] \<Rightarrow> Resolved (HostValue NativeUndefined)
           | Some (f # fs) \<Rightarrow> Resolved (HostValue (DomFile f)))
      | RUNTIME_NODE \<Rightarrow>
          (case nodeFs_open h path of
             Inl e \<Rightarrow> Rejected e
           | Inr f \<Rightarrow> Resolved (LibFile (new_NodeFile f Undefined Undefined)))
      | RUNTIME_DENO \<Rightarrow>
          (case Deno_open h path of
             Inl e \<Rightarrow> Rejected e
           | Inr f \<Rightarrow> Resolved (LibFile (new_DenoFile f (Num 0) (stat_size f))))
      | RUNTIME_BUN \<Rightarrow> Resolved (HostValue (BunNative path)))"

text \<open>
  The directory trees. The browser's tree ignores the path it is given: its root is
  \<open>/\<close> and its \<open>_files\<close> object starts empty.
\<close>

datatype DirectoryTree =
  BrowserDirectoryTree string "string \<rightharpoonup> dom_file"
  | NodeDirectoryTree string
  | DenoDirectoryTree string

definition openDirectory :: "runtime \<Rightarrow> string \<Rightarrow> error + DirectoryTree" where
  "openDirectory rt path =
     (case rt of
        RUNTIME_BROWSER \<Rightarrow> Inr (BrowserDirectoryTree ''/'' Map.empty)
      | RUNTIME_NODE \<Rightarrow> Inr (NodeDirectoryTree path)
      | RUNTIME_DENO \<Rightarrow> Inr (DenoDirectoryTree path)
      | RUNTIME_BUN \<Rightarrow> Inl (Error ''Runtime not implemented:''))"

text \<open>
  \<open>addFiles()\<close> of the browser's tree: once the user has picked, every picked file is
  stored under \<open>'/' + file.name\<close>. The result here is the \<open>_files\<close> object afterwards.
\<close>

fun store_files :: "dom_file list \<Rightarrow> (string \<rightharpoonup> dom_file) \<Rightarrow> (string \<rightharpoonup> dom_file)" where
  "store_files [] m = m"
| "store_files (f # fs) m = store_files fs (m(''/'' @ df_name f \<mapsto> f))"

definition BrowserDirectoryTree_addFiles ::
    "host \<Rightarrow> (string \<rightharpoonup> dom_file) \<Rightarrow> (string \<rightharpoonup> dom_file) promise" where
  "BrowserDirectoryTree_addFiles h m =
     (case picked h of
        None \<Rightarrow> Pending
      | Some fs \<Rightarrow> Resolved (store_files fs m))"

text \<open>
  \<open>this._files[path]\<close> on the plain object \<open>_files\<close>: an own property if there is one,
  else what the name finds on \<open>Object.prototype\<close>, else \<open>undefined\<close> (\<open>None\<close>).
\<close>

definition object_prototype_names :: "string list" where
  "object_prototype_names =
     [''constructor'', ''hasOwnProperty'', ''isPrototypeOf'', ''propertyIsEnumerable'',
      ''toLocaleString'', ''toString'', ''valueOf'', ''__proto__'', ''__defineGetter__'',
      ''__defineSetter__'', ''__lookupGetter__'', ''__lookupSetter__'']"

definition files_get :: "(string \<rightharpoonup> dom_file) \<Rightarrow> string \<Rightarrow> native option" where
  "files_get m path =
     (case m path of
        Some f \<Rightarrow> Some (DomFile f)
      | None \<Rightarrow> if path \<in> set object_prototype_names then Some (PrototypeMember path) else None)"

text \<open>\<open>openFile(path)\<close> of the three directory trees.\<close>

definition BrowserDirectoryTree_openFile :: "(string \<rightharpoonup> dom_file) \<Rightarrow> string \<Rightarrow> opened promise" where
  "BrowserDirectoryTree_openFile m path =
     (case files_get m path of
        Some v \<Rightarrow> Resolved (HostValue v)
      | None \<Rightarrow> Rejected (Error ''No such file''))"

definition NodeDirectoryTree_openFile :: "host \<Rightarrow> string \<Rightarrow> string \<Rightarrow> opened promise" where
  "NodeDirectoryTree_openFile h rootPath path =
     (let absPath = path_join rootPath path in
      case nodeFs_open h absPath of
        Inl e \<Rightarrow> Rejected e
      | Inr f \<Rightarrow> Resolved (LibFile (new_NodeFile f (Num 0) (stat_size f))))"

definition DenoDirectoryTree_openFile :: "host \<Rightarrow> string \<Rightarrow> string \<Rightarrow> opened promise" where
  "DenoDirectoryTree_openFile h rootPath path =
     (let absPath = path_join rootPath path in
      case Deno_open h absPath of
        Inl e \<Rightarrow> Rejected e
      | Inr f \<Rightarrow> Resolved (LibFile (new_DenoFile f (Num 0) (stat_size f))))"

definition DirectoryTree_openFile :: "host \<Rightarrow> DirectoryTree \<Rightarrow> string \<Rightarrow> opened promise" where
  "DirectoryTree_openFile h t path =
     (case t of
        BrowserDirectoryTree root m \<Rightarrow> BrowserDirectoryTree_openFile m path
      | NodeDirectoryTree root \<Rightarrow> NodeDirectoryTree_openFile h root path
      | DenoDirectoryTree root \<Rightarrow> DenoDirectoryTree_openFile h root path)"

section \<open>The invariant of the bridge, and example inputs\<close>

text \<open>
  What holds of a bridge in every state it can reach: no handler has thrown; before
  \<open>done\<close> is set the controller has not been closed; once it is set
  \<open>controller.close()\<close> has run at most once; and a requested close is pending only
  while the queue still holds chunks.
\<close>

definition bridge_inv :: "bridge \<Rightarrow> bool" where
  "bridge_inv b =
     (thrown b = []
      \<and> (if done_flag b then close_calls b \<le> 1
         else close_calls b = 0 \<and> \<not> rs_closed b \<and> \<not> rs_closeRequested b)
      \<and> (rs_closed b \<or> \<not> rs_closeRequested b \<or> rs_queue b \<noteq> []))"

text \<open>
  A host with a ten-byte file under the root \<open>/srv/root\<close> and a file outside of it, and
  the handle that opening the ten-byte file gives.
\<close>

definition example_bytes :: "byte list" where
  "example_bytes = [0, 1, 2, 3, 4, 5, 6, 7, 8, 9]"

definition example_host :: host where
  "example_host =
     \<lparr>files = [''/srv/root/ten'' \<mapsto> example_bytes, ''/srv/secret'' \<mapsto> [115, 51, 99]],
      picked = Some [\<lparr>df_name = ''photo.png'', df_bytes = [137, 80]\<rparr>]\<rparr>"

definition example_handle :: handle where
  "example_handle = \<lparr>h_path = ''/srv/root/ten'', h_bytes = example_bytes\<rparr>"

text \<open>
  The bridge that \<open>stream()\<close> sets up for the whole ten-byte file when the native stream
  emits four bytes at a time.
\<close>

definition example_bridge :: bridge where
  "example_bridge =
     \<lparr>ns_pending = [[0, 1, 2, 3], [4, 5, 6, 7], [8, 9]], ns_flowing = True, ns_closed = False,
      rs_queue = [], rs_closeRequested = False, rs_closed = False,
      done_flag = False, delivered = [], discarded = [], close_calls = 0, thrown = []\<rparr>"

section \<open>Consumers that keep up, and cancelled streams\<close>

text \<open>
  A consumer of the Node stream that reads every chunk as soon as it is enqueued, \<open>k\<close>
  chunks and then the producer's \<open>close\<close>; and a consumer of the Deno stream that reads
  after every pull, with a last pull that finds the end of the file.
\<close>

fun keeping_up :: "nat \<Rightarrow> event list" where
  "keeping_up 0 = [EmitClose]"
| "keeping_up (Suc k) = EmitData # Read # keeping_up k"

fun pulling :: "nat \<Rightarrow> sr_event list" where
  "pulling 0 = [SrPull]"
| "pulling (Suc k) = SrPull # SrRead # pulling k"

text \<open>A bridge, or a Deno stream, that is open with an empty queue.\<close>

definition ready :: "bridge \<Rightarrow> bool" where
  "ready b = (ns_flowing b \<and> \<not> ns_closed b \<and> rs_queue b = [] \<and> \<not> rs_closed b
              \<and> \<not> rs_closeRequested b \<and> \<not> done_flag b)"

definition sr_ready :: "seek_reader \<Rightarrow> bool" where
  "sr_ready s = (\<not> sr_closed s \<and> sr_errored s = None \<and> sr_queue s = [] \<and> 0 < sr_chunk s)"

text \<open>A bridge after a cancellation.\<close>

definition cancelled :: "bridge \<Rightarrow> bool" where
  "cancelled b = (rs_closed b \<and> rs_queue b = [] \<and> ns_closed b \<and> done_flag b)"

section \<open>Lemmas\<close>

lemmas slice_defs =
  File_slice_def NodeFile_slice_def DenoFile_slice_def new_NodeFile_def new_DenoFile_def
  File_constructor_def size_of_def

lemmas handler_defs =
  pull_def cancel_def on_data_def on_close_def controller_enqueue_def controller_close_def
  nodeStream_resume_def nodeStream_pause_def nodeStream_close_def desiredSize_def

lemmas example_defs = example_host_def example_handle_def example_bytes_def

lemma slice_handle: "f_file (File_slice this a b) = f_file this"
  by (cases "f_class this") (simp_all add: slice_defs)

lemma slice_class: "f_class (File_slice this a b) = f_class this"
  by (cases "f_class this") (simp_all add: slice_defs)

lemma slice_start: "f_start (File_slice this a b) = (if truthy a then a else f_start this)"
  by (cases "f_class this") (simp_all add: slice_defs)

lemma slice_end: "f_end (File_slice this a b) = (if truthy b then b else f_end this)"
  by (cases "f_class this") (simp_all add: slice_defs)

lemma slice_size:
  "size_of (File_slice this a b) =
     js_sub (if truthy b then b else f_end this) (if truthy a then a else f_start this)"
  by (cases "f_class this") (simp_all add: slice_defs)

text \<open>The example files are what the open operations return on the example host.\<close>

lemma tree_opens_ten:
  "DirectoryTree_openFile example_host (NodeDirectoryTree ''/srv/root'') ''ten''
     = Resolved (LibFile (new_NodeFile example_handle (Num 0) (Num 10)))"
  by (simp add: DirectoryTree_openFile_def NodeDirectoryTree_openFile_def path_join_def
      posix_normalize_def nodeFs_open_def stat_size_def example_defs)

lemma deno_opens_ten:
  "openFile RUNTIME_DENO example_host ''/srv/root/ten''
     = Resolved (LibFile (new_DenoFile example_handle (Num 0) (Num 10)))"
  by (simp add: openFile_def Deno_open_def stat_size_def example_defs)

text \<open>Runs of the bridge, and the invariant along them.\<close>

lemma run_snoc: "run (es @ [e]) b = step e (run es b)"
  by (induction es arbitrary: b) simp_all

lemma inv_pull: "bridge_inv b \<Longrightarrow> bridge_inv (pull b)"
  by (auto simp add: bridge_inv_def handler_defs split: if_splits)

lemma inv_cancel: "bridge_inv b \<Longrightarrow> bridge_inv (cancel (b\<lparr>rs_closed := True, rs_queue := []\<rparr>))"
  by (auto simp add: bridge_inv_def handler_defs split: if_splits)

lemma inv_on_close: "bridge_inv b \<Longrightarrow> bridge_inv (on_close b)"
  by (auto simp add: bridge_inv_def handler_defs split: if_splits)

lemma inv_on_data: "bridge_inv b \<Longrightarrow> bridge_inv (on_data c (b\<lparr>ns_pending := cs\<rparr>))"
  by (auto simp add: bridge_inv_def handler_defs split: if_splits)

lemma inv_read:
  "bridge_inv b \<Longrightarrow> rs_queue b = c # cs \<Longrightarrow>
   bridge_inv (b\<lparr>rs_queue := cs, delivered := delivered b @ [c],
                 rs_closed := (rs_closed b \<or> (rs_closeRequested b \<and> cs = []))\<rparr>)"
  by (auto simp add: bridge_inv_def split: if_splits)

lemma inv_step: "bridge_inv b \<Longrightarrow> bridge_inv (step e b)"
  by (cases e)
    (simp_all add: step_def inv_pull inv_cancel inv_on_close inv_on_data inv_read
      split: list.split)

lemma inv_run: "bridge_inv b \<Longrightarrow> bridge_inv (run es b)"
  by (induction es arbitrary: b) (simp_all add: inv_step)

lemma inv_init: "NodeFile_stream this n = Inr b \<Longrightarrow> bridge_inv b"
  by (auto simp add: NodeFile_stream_def bridge_inv_def split: sum.splits)

lemma inv_close_calls: "bridge_inv b \<Longrightarrow> close_calls b \<le> 1"
  by (auto simp add: bridge_inv_def split: if_splits)

text \<open>The seek log of a Deno stream is fixed when \<open>stream()\<close> returns.\<close>

lemma sr_step_seeks: "sr_seeks (sr_step e s) = sr_seeks s"
  by (cases e) (simp_all add: sr_step_def DenoFile_stream_pull_def sr_read_def Let_def split: list.split)

lemma sr_run_seeks: "sr_seeks (sr_run es s) = sr_seeks s"
  by (induction es arbitrary: s) (simp_all add: sr_step_seeks)

lemma stream_seeks:
  "sr_seeks (DenoFile_stream this n) = (if f_start this \<noteq> Undefined then [f_start this] else [])"
  by (simp add: DenoFile_stream_def new_ReadableStream_def DenoFile_stream_start_def seek_def
      Let_def split: jsval.split)

lemma example_stream:
  "NodeFile_stream (new_NodeFile example_handle (Num 0) (Num 10)) 4 = Inr example_bridge"
  by (simp add: NodeFile_stream_def createReadStream_def valid_bound_def slice_defs
      example_defs example_bridge_def)

text \<open>
  A slice with bounds \<open>0 < a <= b\<close> that are safe integers has exactly these bounds, and
  the size \<open>b - a\<close>.
\<close>

lemma slice_positive_bounds:
  "0 < a \<Longrightarrow> a \<le> b \<Longrightarrow> b \<le> 9007199254740991 \<Longrightarrow>
   f_start (File_slice this (Num a) (Num b)) = Num a
   \<and> f_end (File_slice this (Num a) (Num b)) = Num b
   \<and> size_of (File_slice this (Num a) (Num b)) = Num (b - a)"
  by (simp add: slice_start slice_end slice_size)

text \<open>
  The directory trees of Node and Deno, and \<open>openFile\<close> under Deno, return Files over
  \<open>[0, size)\<close>; on a host of regular files, a path with no file behind it is rejected.
\<close>

lemma tree_openFile_size:
  "DirectoryTree_openFile h (NodeDirectoryTree root) p = Resolved (LibFile f)
   \<or> DirectoryTree_openFile h (DenoDirectoryTree root) p = Resolved (LibFile f)
   \<or> openFile RUNTIME_DENO h q = Resolved (LibFile f) \<Longrightarrow>
   f_start f = Num 0 \<and> f_end f = stat_size (f_file f)
   \<and> size_of f = Num (int (length (h_bytes (f_file f)))) \<and> isInteger (size_of f)"
  by (auto simp add: DirectoryTree_openFile_def NodeDirectoryTree_openFile_def
      DenoDirectoryTree_openFile_def openFile_def slice_defs stat_size_def Let_def
      split: sum.splits)

lemma tree_openFile_missing:
  "files h (path_join root p) = None \<Longrightarrow>
   DirectoryTree_openFile h (NodeDirectoryTree root) p = Rejected ENOENT
   \<and> DirectoryTree_openFile h (DenoDirectoryTree root) p = Rejected NotFound"
  by (simp add: DirectoryTree_openFile_def NodeDirectoryTree_openFile_def
      DenoDirectoryTree_openFile_def nodeFs_open_def Deno_open_def)

lemma browser_tree_openFile_missing:
  "m p = None \<Longrightarrow> p \<notin> set object_prototype_names \<Longrightarrow>
   DirectoryTree_openFile h (BrowserDirectoryTree root m) p = Rejected (Error ''No such file'')"
  by (simp add: DirectoryTree_openFile_def BrowserDirectoryTree_openFile_def files_get_def)

text \<open>Without capacity the \<open>data\<close> handler enqueues nothing and pauses the producer.\<close>

lemma on_data_without_capacity:
  "desiredSize b \<le> 0 \<Longrightarrow>
   rs_queue (on_data c b) = rs_queue b \<and> \<not> ns_flowing (on_data c b)
   \<and> discarded (on_data c b) = discarded b @ [c]"
  by (simp add: on_data_def nodeStream_pause_def)

text \<open>After a cancellation the producer stays closed and nothing more is delivered.\<close>

lemma cancelled_step:
  "cancelled b \<Longrightarrow> cancelled (step e b) \<and> delivered (step e b) = delivered b"
  by (cases e) (auto simp add: cancelled_def step_def handler_defs split: list.split)

lemma cancelled_run:
  "cancelled b \<Longrightarrow> cancelled (run es b) \<and> delivered (run es b) = delivered b"
  by (induction es arbitrary: b) (simp_all add: cancelled_step)

lemma cancel_is_final:
  "delivered (run es (step Cancel b)) = delivered b
   \<and> ns_closed (run es (step Cancel b))
   \<and> rs_queue (run es (step Cancel b)) = []"
proof -
  have c: "cancelled (step Cancel b)"
    by (simp add: cancelled_def step_def cancel_def nodeStream_close_def)
  have d: "delivered (step Cancel b) = delivered b"
    by (simp add: step_def cancel_def nodeStream_close_def)
  from cancelled_run [OF c, of es] d show ?thesis
    by (simp add: cancelled_def)
qed

text \<open>
  What a consumer that keeps up receives from the Node stream, the first one taken from
  its handle: every chunk the native stream holds, in order. For a File over \<open>[0, size)\<close> these are the bytes of the file;
  for a File with bounds \<open>a\<close> and \<open>b\<close> they are the bytes from \<open>a\<close> up to and including
  \<open>b\<close>.
\<close>

lemma concat_chunks: "concat (chunks n xs) = xs"
  by (induction n xs rule: chunks.induct) simp_all

lemma keeping_up_delivers:
  "ready b \<Longrightarrow>
   delivered (run (keeping_up (length (ns_pending b))) b) = delivered b @ ns_pending b
   \<and> discarded (run (keeping_up (length (ns_pending b))) b) = discarded b
   \<and> rs_closed (run (keeping_up (length (ns_pending b))) b)"
proof (induction "ns_pending b" arbitrary: b)
  case Nil
  then show ?case
    by (simp add: ready_def step_def handler_defs)
next
  case (Cons c cs)
  define b' where "b' = step Read (step EmitData b)"
  have pend: "ns_pending b = c # cs" using Cons.hyps(2) by simp
  have b': "ns_pending b' = cs" "ready b'" "delivered b' = delivered b @ [c]"
    "discarded b' = discarded b"
    using Cons.prems pend by (simp_all add: b'_def ready_def step_def handler_defs)
  from Cons.hyps(1) [of b'] b' show ?case
    by (simp add: pend b'_def)
qed

lemma whole_file_node:
  "NodeFile_stream (new_NodeFile f (Num 0) (stat_size f)) n = Inr b \<Longrightarrow>
   concat (delivered (run (keeping_up (length (ns_pending b))) b)) = h_bytes f
   \<and> discarded (run (keeping_up (length (ns_pending b))) b) = []"
proof -
  assume a: "NodeFile_stream (new_NodeFile f (Num 0) (stat_size f)) n = Inr b"
  then have r: "ready b" and p: "ns_pending b = chunks n (h_bytes f)"
    and d: "delivered b = []" "discarded b = []"
    by (auto simp add: NodeFile_stream_def createReadStream_def valid_bound_def slice_defs
        stat_size_def ready_def split: sum.splits if_splits)
  from keeping_up_delivers [OF r] show ?thesis
    by (simp add: p d concat_chunks)
qed

lemma range_node:
  "0 \<le> a \<Longrightarrow> a \<le> b \<Longrightarrow>
   NodeFile_stream (new_NodeFile f (Num a) (Num b)) n = Inr s \<Longrightarrow>
   concat (delivered (run (keeping_up (length (ns_pending s))) s))
     = take (nat b + 1 - nat a) (drop (nat a) (h_bytes f))"
proof -
  assume a: "0 \<le> a" "a \<le> b"
    and st: "NodeFile_stream (new_NodeFile f (Num a) (Num b)) n = Inr s"
  then have r: "ready s"
    and p: "ns_pending s = chunks n (take (nat b + 1 - nat a) (drop (nat a) (h_bytes f)))"
    and d: "delivered s = []"
    by (auto simp add: NodeFile_stream_def createReadStream_def valid_bound_def slice_defs
        ready_def Let_def split: sum.splits if_splits)
  from keeping_up_delivers [OF r] show ?thesis
    by (simp add: p d concat_chunks)
qed

text \<open>
  What a consumer receives from the Deno stream of a File that starts at \<open>a\<close>: the bytes
  from \<open>a\<close> to the end of the file, whatever the File's end.
\<close>

lemma pulling_delivers:
  "sr_ready s \<Longrightarrow> cs = chunks (sr_chunk s) (drop (sr_pos s) (sr_bytes s)) \<Longrightarrow>
   sr_delivered (sr_run (pulling (length cs)) s) = sr_delivered s @ cs
   \<and> sr_closed (sr_run (pulling (length cs)) s)"
proof (induction cs arbitrary: s)
  case Nil
  then have "drop (sr_pos s) (sr_bytes s) = []"
    by (cases "drop (sr_pos s) (sr_bytes s)") (simp_all add: sr_ready_def)
  then have "length (sr_bytes s) \<le> sr_pos s" by simp
  with Nil show ?case
    by (simp add: sr_ready_def sr_step_def DenoFile_stream_pull_def)
next
  case (Cons c cs)
  define rest where "rest = drop (sr_pos s) (sr_bytes s)"
  define s' where "s' = sr_step SrRead (sr_step SrPull s)"
  have n: "0 < sr_chunk s" using Cons.prems(1) by (simp add: sr_ready_def)
  have ne: "rest \<noteq> []"
    using Cons.prems(2) by (auto simp add: rest_def)
  then obtain x xs where rest: "rest = x # xs" by (cases rest) auto
  have c: "c = take (sr_chunk s) rest" and cs: "cs = chunks (sr_chunk s) (drop (sr_chunk s) rest)"
    using Cons.prems(2) n unfolding rest_def [symmetric] rest by simp_all
  have more: "\<not> length (sr_bytes s) \<le> sr_pos s"
    using ne by (simp add: rest_def)
  have pos: "drop (sr_pos s + length c) (sr_bytes s) = drop (sr_chunk s) rest"
    unfolding c rest_def by (simp add: min_def add.commute)
  have s': "sr_ready s'" "sr_chunk s' = sr_chunk s" "sr_bytes s' = sr_bytes s"
    "sr_pos s' = sr_pos s + length c" "sr_delivered s' = sr_delivered s @ [c]"
    using Cons.prems(1) more
    by (simp_all add: s'_def sr_ready_def sr_step_def DenoFile_stream_pull_def sr_read_def
        Let_def c rest_def)
  have "cs = chunks (sr_chunk s') (drop (sr_pos s') (sr_bytes s'))"
    by (simp add: s' pos cs)
  moreover have "sr_run (pulling (length (c # cs))) s = sr_run (pulling (length cs)) s'"
    by (simp add: s'_def)
  ultimately show ?case
    using Cons.IH [OF s'(1)] s'(5) by simp
qed

lemma range_deno:
  "0 \<le> a \<Longrightarrow> 0 < n \<Longrightarrow>
   concat (sr_delivered (sr_run (pulling (length (chunks n (drop (nat a) (h_bytes f)))))
      (DenoFile_stream (new_DenoFile f (Num a) b) n)))
     = drop (nat a) (h_bytes f)"
proof -
  assume a: "0 \<le> a" "0 < n"
  define s where "s = DenoFile_stream (new_DenoFile f (Num a) b) n"
  have s: "sr_ready s" "sr_chunk s = n" "sr_pos s = nat a" "sr_bytes s = h_bytes f"
    "sr_delivered s = []"
    using a by (simp_all add: s_def DenoFile_stream_def new_ReadableStream_def
        DenoFile_stream_start_def seek_def slice_defs sr_ready_def)
  from pulling_delivers [OF s(1), of "chunks n (drop (nat a) (h_bytes f))"] show ?thesis
    unfolding s_def [symmetric] by (simp add: s concat_chunks)
qed

text \<open>
  Whatever the chunk size, on a file longer than one chunk: when the second chunk
  arrives before the consumer has read the first, the \<open>data\<close> handler discards it.
\<close>

lemma second_chunk_is_lost:
  "0 < n \<Longrightarrow> n < length (h_bytes f) \<Longrightarrow> length (h_bytes f) \<le> 9007199254740991 \<Longrightarrow>
   NodeFile_stream (new_NodeFile f (Num 0) (stat_size f)) n = Inr b \<Longrightarrow>
   rs_queue (run [EmitData, EmitData] b) = [take n (h_bytes f)]
   \<and> discarded (run [EmitData, EmitData] b) = [take n (drop n (h_bytes f))]
   \<and> take n (drop n (h_bytes f)) \<noteq> []
   \<and> \<not> ns_flowing (run [EmitData, EmitData] b)"
proof -
  assume n: "0 < n" "n < length (h_bytes f)" and small: "length (h_bytes f) \<le> 9007199254740991"
    and st: "NodeFile_stream (new_NodeFile f (Num 0) (stat_size f)) n = Inr b"
  define bs where "bs = h_bytes f"
  obtain x xs where bs: "bs = x # xs" using n(2) by (cases bs) (auto simp add: bs_def)
  have rest: "drop n bs \<noteq> []" using n(2) by (simp add: bs_def)
  then obtain y ys where dr: "drop n bs = y # ys" by (cases "drop n bs") auto
  have "chunks n bs = take n bs # chunks n (drop n bs)"
    using n(1) unfolding bs by simp
  also have "chunks n (drop n bs) = take n (drop n bs) # chunks n (drop n (drop n bs))"
    using n(1) unfolding dr by simp
  finally have ch: "chunks n bs = take n bs # take n (drop n bs) # chunks n (drop n (drop n bs))" .
  have b: "b = \<lparr>ns_pending = chunks n bs, ns_flowing = True, ns_closed = False,
               rs_queue = [], rs_closeRequested = False, rs_closed = False,
               done_flag = False, delivered = [], discarded = [], close_calls = 0,
               thrown = []\<rparr>"
    using st small by (auto simp add: NodeFile_stream_def createReadStream_def valid_bound_def
        slice_defs stat_size_def bs_def split: sum.splits if_splits)
  have ne: "take n (drop n bs) \<noteq> []" using n(1) rest by simp
  show ?thesis
    unfolding bs_def [symmetric] using ne
    by (simp add: b ch step_def handler_defs)
qed

text \<open>
  Once a close is requested, the stream is closed or still holds chunks, and it is
  closed when the consumer has read them.
\<close>

lemma run_append: "run (es @ fs) b = run fs (run es b)"
  by (induction es arbitrary: b) simp_all

lemma reads_close:
  "rs_closeRequested s \<Longrightarrow> rs_closed s \<or> rs_queue s \<noteq> [] \<Longrightarrow>
   rs_closed (run (replicate (length (rs_queue s)) Read) s)"
proof (induction "rs_queue s" arbitrary: s)
  case Nil
  then show ?case by simp
next
  case (Cons c cs)
  define s' where "s' = step Read s"
  have q: "rs_queue s = c # cs" using Cons.hyps(2) by simp
  have s': "rs_queue s' = cs" "rs_closeRequested s'" "rs_closed s' \<or> rs_queue s' \<noteq> []"
    using Cons.prems q by (auto simp add: s'_def step_def)
  from Cons.hyps(1) [of s'] s' show ?case
    by (simp add: q s'_def)
qed

section \<open>Slicing\<close>

text \<open>
  C8. For every File, \<open>slice\<close> returns a File over the same handle, and an argument left
  out defaults to the File's own start or end, not to 0 or the size: \<open>slice()\<close> on a File
  over \<open>[s, e)\<close> is a File over \<open>[s, e)\<close> again. \<open>File_slice\<close> takes no host, so it cannot
  open a handle.
\<close>

theorem slice_keeps_handle_and_own_bounds:
  "f_file (File_slice this a b) = f_file this
   \<and> f_start (File_slice this Undefined b) = f_start this
   \<and> f_end (File_slice this a Undefined) = f_end this
   \<and> size_of (File_slice this Undefined Undefined) = js_sub (f_end this) (f_start this)"
  by (simp add: slice_handle slice_start slice_end slice_size)

text \<open>
  C9. \<open>slice\<close> treats a bound of 0 as a bound left out: \<open>slice(0, e)\<close> is \<open>slice(undefined, e)\<close>
  and \<open>slice(s, 0)\<close> is \<open>slice(s, undefined)\<close>. So on a File whose start is \<open>k > 0\<close>,
  \<open>slice(0, e)\<close> starts at \<open>k\<close>, not at 0, and \<open>slice(s, 0)\<close> ends where the File ends.
\<close>

theorem slice_zero_bound_counts_as_omitted:
  "File_slice this (Num 0) e = File_slice this Undefined e
   \<and> File_slice this s (Num 0) = File_slice this s Undefined
   \<and> (f_start this = Num k \<and> 0 < k \<longrightarrow>
        f_start (File_slice this (Num 0) e) = Num k
        \<and> f_start (File_slice this (Num 0) e) \<noteq> Num 0)
   \<and> f_end (File_slice this s (Num 0)) = f_end this"
  by (cases "f_class this") (simp_all add: slice_defs)

text \<open>C9 at a File over \<open>[5, 10)\<close>: \<open>slice(0, 8)\<close> starts at 5 and \<open>slice(6, 0)\<close> ends at 10.\<close>

theorem slice_zero_bound_counts_as_omitted_witness:
  "f_start (new_NodeFile example_handle (Num 5) (Num 10)) = Num 5 \<and> (0::int) < 5
   \<and> f_start (File_slice (new_NodeFile example_handle (Num 5) (Num 10)) (Num 0) (Num 8)) = Num 5
   \<and> f_end (File_slice (new_NodeFile example_handle (Num 5) (Num 10)) (Num 6) (Num 0)) = Num 10"
  using slice_zero_bound_counts_as_omitted
    [of "new_NodeFile example_handle (Num 5) (Num 10)" "Num 8" "Num 6" 5]
  by (simp add: slice_defs)

text \<open>
  C3. The claim is that \<open>slice(start, end)\<close> has size \<open>end - start\<close> whenever
  \<open>0 <= start <= end <= size\<close>. On the ten-byte File over \<open>[0, 10)\<close>, \<open>slice(0, 0)\<close> has
  size 10, not 0; and on its slice over \<open>[5, 10)\<close>, of size 5, \<open>slice(0, 3)\<close> has size -2,
  not 3: the zero bounds fall to the test \<open>start ? start : this._start\<close>.
\<close>

theorem slice_with_zero_bound_has_wrong_size:
  "size_of (File_slice (new_NodeFile example_handle (Num 0) (Num 10)) (Num 0) (Num 0)) = Num 10
   \<and> size_of (File_slice (new_NodeFile example_handle (Num 0) (Num 10)) (Num 5) (Num 10)) = Num 5
   \<and> size_of (File_slice
        (File_slice (new_NodeFile example_handle (Num 0) (Num 10)) (Num 5) (Num 10))
        (Num 0) (Num 3)) = Num (- 2)"
  by (simp add: slice_defs)

section \<open>Opening\<close>

text \<open>
  C4. The claim is that every File an open operation returns has a valid integer size.
  Under Node, \<open>openFile\<close> of an existing file resolves with \<open>new NodeFile(f)\<close>: start and
  end are undefined and the size is \<open>NaN\<close>.
\<close>

theorem node_openFile_size_is_NaN:
  "openFile RUNTIME_NODE example_host ''/srv/root/ten''
     = Resolved (LibFile (new_NodeFile example_handle Undefined Undefined))
   \<and> size_of (new_NodeFile example_handle Undefined Undefined) = NaN
   \<and> \<not> isInteger (size_of (new_NodeFile example_handle Undefined Undefined))"
  by (simp add: openFile_def nodeFs_open_def example_defs slice_defs)

text \<open>
  C5. The claim is that a directory tree rejects a relative path that leaves its root
  and fails when no entry exists. The trees of Node and Deno rooted at \<open>/srv/root\<close> open
  \<open>../secret\<close>, which is the file \<open>/srv/secret\<close> outside the root; and the empty
  browser tree resolves the name \<open>constructor\<close>, for which it holds no entry.
\<close>

theorem tree_opens_file_outside_root:
  "path_join ''/srv/root'' ''../secret'' = ''/srv/secret''
   \<and> DirectoryTree_openFile example_host (NodeDirectoryTree ''/srv/root'') ''../secret''
       = Resolved (LibFile (new_NodeFile
           \<lparr>h_path = ''/srv/secret'', h_bytes = [115, 51, 99]\<rparr> (Num 0) (Num 3)))
   \<and> DirectoryTree_openFile example_host (DenoDirectoryTree ''/srv/root'') ''../secret''
       = Resolved (LibFile (new_DenoFile
           \<lparr>h_path = ''/srv/secret'', h_bytes = [115, 51, 99]\<rparr> (Num 0) (Num 3)))
   \<and> DirectoryTree_openFile example_host (BrowserDirectoryTree ''/'' Map.empty) ''constructor''
       = Resolved (HostValue (PrototypeMember ''constructor''))"
  by (simp add: DirectoryTree_openFile_def NodeDirectoryTree_openFile_def
      DenoDirectoryTree_openFile_def BrowserDirectoryTree_openFile_def files_get_def
      object_prototype_names_def path_join_def posix_normalize_def nodeFs_open_def
      Deno_open_def stat_size_def example_defs)

text \<open>
  C10. Under Bun, \<open>openFile\<close> resolves with the object of \<open>Bun.file(path)\<close>; in the browser,
  once the user has picked files, with the first DOM \<open>File\<close> of the picker. On neither
  path is the result an object of the library's \<open>File\<close>.
\<close>

theorem bun_and_browser_open_host_values:
  "openFile RUNTIME_BUN h path = Resolved (HostValue (BunNative path))
   \<and> (picked h = Some (d # ds) \<longrightarrow>
        openFile RUNTIME_BROWSER h path = Resolved (HostValue (DomFile d)))
   \<and> openFile RUNTIME_BROWSER h path \<noteq> Resolved (LibFile f)
   \<and> openFile RUNTIME_BUN h path \<noteq> Resolved (LibFile f)"
  by (simp add: openFile_def split: option.split list.split)

text \<open>C10 on the example host, where the user picks \<open>photo.png\<close>.\<close>

theorem bun_and_browser_open_host_values_witness:
  "picked example_host = Some [\<lparr>df_name = ''photo.png'', df_bytes = [137, 80]\<rparr>]
   \<and> openFile RUNTIME_BROWSER example_host ''ignored''
       = Resolved (HostValue (DomFile \<lparr>df_name = ''photo.png'', df_bytes = [137, 80]\<rparr>))
   \<and> openFile RUNTIME_BUN example_host ''/srv/root/ten''
       = Resolved (HostValue (BunNative ''/srv/root/ten''))"
  using bun_and_browser_open_host_values
    [of example_host "''/srv/root/ten''" "\<lparr>df_name = ''photo.png'', df_bytes = [137, 80]\<rparr>" "[]"]
    bun_and_browser_open_host_values
    [of example_host "''ignored''" "\<lparr>df_name = ''photo.png'', df_bytes = [137, 80]\<rparr>" "[]"]
  by (simp add: example_host_def)

section \<open>Streaming\<close>

text \<open>
  C7. The bridge signals the end of the sequence at most once. Along every run of a
  stream that \<open>stream()\<close> has set up, \<open>controller.close()\<close> is called at most once and no
  handler throws. The first \<open>close\<close> of the producer sets \<open>done\<close> and closes the
  downstream: the controller takes the close, the chunks in the queue stay, the stream
  is closed at once when the queue is empty and otherwise as soon as the consumer has
  read the chunks that are queued. Once \<open>done\<close> is set, by an earlier \<open>close\<close> or by a
  cancellation, a \<open>close\<close> of the producer changes nothing; and a cancellation sets
  \<open>done\<close> without closing the controller.
\<close>

theorem end_of_sequence_signalled_at_most_once:
  "NodeFile_stream this n = Inr b \<Longrightarrow>
     close_calls (run es b) \<le> 1
     \<and> thrown (run es b) = []
     \<and> (\<not> done_flag (run es b) \<longrightarrow>
          done_flag (run (es @ [EmitClose]) b)
          \<and> close_calls (run (es @ [EmitClose]) b) = 1
          \<and> rs_closeRequested (run (es @ [EmitClose]) b)
          \<and> (rs_closed (run (es @ [EmitClose]) b) \<or> rs_queue (run (es @ [EmitClose]) b) \<noteq> [])
          \<and> rs_closed (run (es @ [EmitClose]) b) = (rs_queue (run es b) = [])
          \<and> rs_queue (run (es @ [EmitClose]) b) = rs_queue (run es b)
          \<and> rs_closed (run (es @ [EmitClose] @ replicate (length (rs_queue (run es b))) Read) b))
     \<and> (done_flag (run es b) \<longrightarrow> run (es @ [EmitClose]) b = run es b)
     \<and> done_flag (run (es @ [Cancel]) b)
     \<and> close_calls (run (es @ [Cancel]) b) = close_calls (run es b)"
proof -
  assume init: "NodeFile_stream this n = Inr b"
  define s where "s = run es b"
  have inv: "bridge_inv s"
    unfolding s_def using init by (simp add: inv_init inv_run)
  have calls: "close_calls s \<le> 1"
    using inv by (rule inv_close_calls)
  have nothing_thrown: "thrown s = []"
    using inv by (simp add: bridge_inv_def)
  have first: "\<not> done_flag s \<longrightarrow>
      done_flag (step EmitClose s) \<and> close_calls (step EmitClose s) = 1
      \<and> rs_closeRequested (step EmitClose s)
      \<and> (rs_closed (step EmitClose s) \<or> rs_queue (step EmitClose s) \<noteq> [])
      \<and> rs_closed (step EmitClose s) = (rs_queue s = [])
      \<and> rs_queue (step EmitClose s) = rs_queue s"
    using inv by (auto simp add: bridge_inv_def step_def on_close_def controller_close_def)
  have drained: "\<not> done_flag s \<longrightarrow>
      rs_closed (run (replicate (length (rs_queue s)) Read) (step EmitClose s))"
  proof
    assume "\<not> done_flag s"
    with first have f: "rs_closeRequested (step EmitClose s)"
      "rs_closed (step EmitClose s) \<or> rs_queue (step EmitClose s) \<noteq> []"
      "rs_queue (step EmitClose s) = rs_queue s"
      by simp_all
    from reads_close [OF f(1) f(2)] show
      "rs_closed (run (replicate (length (rs_queue s)) Read) (step EmitClose s))"
      by (simp add: f(3))
  qed
  have later: "done_flag s \<longrightarrow> step EmitClose s = s"
    by (simp add: step_def on_close_def)
  have cancelled: "done_flag (step Cancel s) \<and> close_calls (step Cancel s) = close_calls s"
    by (simp add: step_def cancel_def nodeStream_close_def)
  have split: "run (es @ [EmitClose] @ replicate (length (rs_queue s)) Read) b
      = run (replicate (length (rs_queue s)) Read) (step EmitClose s)"
    by (simp add: run_append s_def)
  show ?thesis
    using calls nothing_thrown first drained later cancelled
    unfolding split [unfolded s_def] s_def run_snoc by blast
qed

text \<open>
  C7 on the stream of the ten-byte file. After one chunk that is still queued, the
  producer's \<open>close\<close> closes the controller, the chunk stays in the queue, and the
  stream is closed once the consumer has read it; after one chunk that has been read,
  the \<open>close\<close> closes the stream at once; after a cancellation it is a no-op; and a run
  with three \<open>close\<close> events and a cancellation calls \<open>controller.close()\<close> at most once.
\<close>

theorem end_of_sequence_signalled_at_most_once_witness:
  "NodeFile_stream (new_NodeFile example_handle (Num 0) (Num 10)) 4 = Inr example_bridge
   \<and> \<not> done_flag (run [EmitData] example_bridge)
   \<and> close_calls (run ([EmitData] @ [EmitClose]) example_bridge) = 1
   \<and> rs_queue (run ([EmitData] @ [EmitClose]) example_bridge) = [[0, 1, 2, 3]]
   \<and> \<not> rs_closed (run ([EmitData] @ [EmitClose]) example_bridge)
   \<and> rs_closed (run ([EmitData] @ [EmitClose] @ [Read]) example_bridge)
   \<and> \<not> done_flag (run [EmitData, Read] example_bridge)
   \<and> rs_closed (run ([EmitData, Read] @ [EmitClose]) example_bridge)
   \<and> done_flag (run [EmitData, Cancel] example_bridge)
   \<and> run ([EmitData, Cancel] @ [EmitClose]) example_bridge = run [EmitData, Cancel] example_bridge
   \<and> close_calls (run [EmitData, EmitClose, EmitClose, Cancel, EmitClose] example_bridge) \<le> 1"
proof -
  have not_done: "\<not> done_flag (run [EmitData] example_bridge)"
    "\<not> done_flag (run [EmitData, Read] example_bridge)"
    by (simp_all add: example_bridge_def step_def handler_defs)
  have is_done: "done_flag (run [EmitData, Cancel] example_bridge)"
    by (simp add: example_bridge_def step_def handler_defs)
  have queue: "rs_queue (run [EmitData] example_bridge) = [[0, 1, 2, 3]]"
    "rs_queue (run [EmitData, Read] example_bridge) = []"
    by (simp_all add: example_bridge_def step_def handler_defs)
  have reads: "replicate (length (rs_queue (run [EmitData] example_bridge))) Read = [Read]"
    unfolding queue(1) by simp
  show ?thesis
    using not_done is_done queue
      end_of_sequence_signalled_at_most_once [OF example_stream, of "[EmitData]"]
      end_of_sequence_signalled_at_most_once [OF example_stream, of "[EmitData, Read]"]
      end_of_sequence_signalled_at_most_once [OF example_stream, of "[EmitData, Cancel]"]
      end_of_sequence_signalled_at_most_once [OF example_stream,
        of "[EmitData, EmitClose, EmitClose, Cancel, EmitClose]"]
      example_stream
    unfolding reads by auto
qed

text \<open>
  C2. The claim is that a chunk arriving while the consumer's desired capacity is zero
  is buffered, not lost. On the stream of the ten-byte file the first chunk fills the
  queue and the capacity drops to 0; the second chunk then arrives: the handler pauses
  the producer and lets the chunk go. After the consumer reads and the stream resumes,
  the third chunk follows the first: bytes 4 to 7 never reach the consumer, and the
  stream closes as if complete.
\<close>

theorem chunk_arriving_at_zero_capacity_is_lost:
  "NodeFile_stream (new_NodeFile example_handle (Num 0) (Num 10)) 4 = Inr example_bridge
   \<and> desiredSize (run [EmitData] example_bridge) = 0
   \<and> rs_queue (run [EmitData, EmitData] example_bridge) = [[0, 1, 2, 3]]
   \<and> discarded (run [EmitData, EmitData] example_bridge) = [[4, 5, 6, 7]]
   \<and> \<not> ns_flowing (run [EmitData, EmitData] example_bridge)
   \<and> delivered (run [EmitData, EmitData, Read, Pull, EmitData, Read, EmitClose] example_bridge)
       = [[0, 1, 2, 3], [8, 9]]
   \<and> rs_closed (run [EmitData, EmitData, Read, Pull, EmitData, Read, EmitClose] example_bridge)"
  by (simp add: example_stream) (simp add: example_bridge_def step_def handler_defs)

text \<open>
  C1. The claim is that the stream of \<open>file.slice(a, b)\<close> yields the \<open>b - a\<close> bytes
  \<open>[a, b)\<close>. For the ten-byte file and \<open>slice(3, 7)\<close>, whose size is 4: the Node stream,
  read chunk by chunk with nothing lost, yields the five bytes 3 to 7, because
  \<open>createReadStream\<close> takes \<open>end\<close> as the last byte to read; the Deno stream yields the
  seven bytes 3 to 9, because it reads to the end of the file.
\<close>

theorem stream_of_slice_3_7_is_not_bytes_3_to_6:
  "size_of (File_slice (new_NodeFile example_handle (Num 0) (Num 10)) (Num 3) (Num 7)) = Num 4
   \<and> (case NodeFile_stream
            (File_slice (new_NodeFile example_handle (Num 0) (Num 10)) (Num 3) (Num 7)) 64 of
         Inl e \<Rightarrow> False
       | Inr b \<Rightarrow>
           concat (delivered (run [EmitData, Read, EmitClose] b)) = [3, 4, 5, 6, 7]
           \<and> discarded (run [EmitData, Read, EmitClose] b) = []
           \<and> rs_closed (run [EmitData, Read, EmitClose] b))
   \<and> concat (sr_delivered (sr_run [SrPull, SrRead, SrPull]
        (DenoFile_stream
          (File_slice (new_DenoFile example_handle (Num 0) (Num 10)) (Num 3) (Num 7)) 64)))
       = [3, 4, 5, 6, 7, 8, 9]
   \<and> sr_closed (sr_run [SrPull, SrRead, SrPull]
        (DenoFile_stream
          (File_slice (new_DenoFile example_handle (Num 0) (Num 10)) (Num 3) (Num 7)) 64))"
  by (simp add: slice_defs NodeFile_stream_def createReadStream_def valid_bound_def
      example_defs step_def handler_defs DenoFile_stream_def new_ReadableStream_def
      DenoFile_stream_start_def seek_def sr_step_def DenoFile_stream_pull_def sr_read_def Let_def)

text \<open>
  C6, as claimed: the seek happens on the first pull and a stream that is never pulled
  performs no seek. It does not hold: the stream of the File over \<open>[0, 10)\<close> that
  \<open>openFile\<close> returns under Deno has performed its seek when \<open>stream()\<close> returns, before
  any pull.
\<close>

theorem seek_at_construction_counterexample:
  "sr_seeks (sr_run [] (DenoFile_stream (new_DenoFile example_handle (Num 0) (Num 10)) 4))
     = [Num 0]
   \<and> sr_seeks (sr_run [] (DenoFile_stream (new_DenoFile example_handle (Num 0) (Num 10)) 4))
     \<noteq> []"
  by (simp add: stream_seeks new_DenoFile_def File_constructor_def)

text \<open>
  C6, amended. For a File whose start is defined (every slice of such a File is one
  again), the seek to the start offset happens exactly once per stream, when the
  stream is constructed: it is the only seek on record when \<open>stream()\<close> returns, and it
  stays the only one after any sequence of pulls and reads.
\<close>

theorem seek_once_at_construction:
  "f_start this \<noteq> Undefined \<Longrightarrow>
     sr_seeks (DenoFile_stream this n) = [f_start this]
     \<and> sr_seeks (sr_run es (DenoFile_stream this n)) = [f_start this]
     \<and> f_start (File_slice this a b) \<noteq> Undefined"
  by (cases a) (simp_all add: sr_run_seeks stream_seeks slice_start)

text \<open>C6, amended, on the stream of a File over \<open>[3, 7)\<close> and three pulls.\<close>

theorem seek_once_at_construction_witness:
  "f_start (new_DenoFile example_handle (Num 3) (Num 7)) \<noteq> Undefined
   \<and> sr_seeks (DenoFile_stream (new_DenoFile example_handle (Num 3) (Num 7)) 4) = [Num 3]
   \<and> sr_seeks (sr_run [SrPull, SrRead, SrPull, SrPull]
        (DenoFile_stream (new_DenoFile example_handle (Num 3) (Num 7)) 4)) = [Num 3]"
proof -
  have defined: "f_start (new_DenoFile example_handle (Num 3) (Num 7)) \<noteq> Undefined"
    by (simp add: new_DenoFile_def File_constructor_def)
  have start: "f_start (new_DenoFile example_handle (Num 3) (Num 7)) = Num 3"
    by (simp add: new_DenoFile_def File_constructor_def)
  show ?thesis
    using defined seek_once_at_construction [OF defined, of 4 "[SrPull, SrRead, SrPull, SrPull]"]
    unfolding start by blast
qed

end
